theory Spec2Isabelle
  imports Complex_Main
begin

section \<open>Bottleneck detector: the class \<open>DetectorCuelloBotellaCorregido\<close>\<close>

text \<open>
  The development follows \<^verbatim>\<open>detector_cuellos_botella_corregido.py\<close>. The object
  is a record, each method a function from the object to the updated object (or to the
  value it returns), and every exception a value of \<open>error\<close>.

  Numbers. Python's \<^verbatim>\<open>int\<close> is \<open>int\<close>. A finite \<^verbatim>\<open>float\<close> is modelled by
  the real number it stands for and float arithmetic by exact real arithmetic: binary64
  rounding and overflow are outside the model. What IEEE arithmetic adds to the reals
  where the program can reach it is written out: NumPy's division of an array by a zero
  sum gives \<open>NaN\<close> or an infinity and raises nothing, so the values of a NumPy array that
  went through such a division are \<open>npfloat\<close>.

  Console output, the charts, the clock and the report file are not modelled; a number
  a method prints but does not return is kept where a property speaks about it. A method
  that raises yields the exception alone: what it had already assigned to the object is
  not observed afterwards, as in \<^verbatim>\<open>main\<close>, where an exception ends the run.
\<close>

subsection \<open>Errors and NumPy values\<close>

datatype error =
    KeyError string
  | TypeError
  | IndexError
  | ValueError
  | ZeroDivisionError
  | LinAlgError

definition bind_err :: "error + 'a \<Rightarrow> ('a \<Rightarrow> error + 'b) \<Rightarrow> error + 'b" where
  "bind_err m f = (case m of Inl e \<Rightarrow> Inl e | Inr x \<Rightarrow> f x)"

datatype npfloat = Fin real | PInf | NInf | NaN

fun np_isnan :: "npfloat \<Rightarrow> bool" where
  "np_isnan NaN = True"
| "np_isnan _ = False"

text \<open>IEEE \<open>\<le>\<close>: false as soon as one side is \<open>NaN\<close>.\<close>

fun np_le :: "npfloat \<Rightarrow> npfloat \<Rightarrow> bool" where
  "np_le NaN _ = False"
| "np_le _ NaN = False"
| "np_le NInf _ = True"
| "np_le _ PInf = True"
| "np_le (Fin x) (Fin y) = (x \<le> y)"
| "np_le _ _ = False"

text \<open>
  \<^verbatim>\<open>x / s\<close> on float arrays: no exception; \<open>0 / 0\<close> is \<open>NaN\<close>, a nonzero value over
  zero is an infinity with the sign of the value.
\<close>

definition np_truediv :: "real \<Rightarrow> real \<Rightarrow> npfloat" where
  "np_truediv x s =
     (if s \<noteq> 0 then Fin (x / s)
      else if x = 0 then NaN
      else if 0 < x then PInf else NInf)"

text \<open>\<^verbatim>\<open>v * c\<close> for a float \<open>v\<close> and a finite constant \<open>c\<close>.\<close>

fun np_mul :: "npfloat \<Rightarrow> real \<Rightarrow> npfloat" where
  "np_mul (Fin x) c = Fin (x * c)"
| "np_mul NaN c = NaN"
| "np_mul PInf c = (if c = 0 then NaN else if 0 < c then PInf else NInf)"
| "np_mul NInf c = (if c = 0 then NaN else if 0 < c then NInf else PInf)"

text \<open>
  \<^verbatim>\<open>np.argmax\<close> on a one-dimensional float array: the first index of the maximum,
  a \<open>NaN\<close> counting as maximal, and \<^verbatim>\<open>ValueError\<close> on an empty array. The loop keeps
  the running maximum \<open>mp\<close> and its index \<open>mi\<close> and moves on when \<open>\<not> x \<le> mp\<close>.
\<close>

fun argmax_loop :: "npfloat \<Rightarrow> nat \<Rightarrow> nat \<Rightarrow> npfloat list \<Rightarrow> nat" where
  "argmax_loop mp mi i [] = mi"
| "argmax_loop mp mi i (x # xs) =
     (if \<not> np_le x mp
      then (if np_isnan x then i else argmax_loop x i (Suc i) xs)
      else argmax_loop mp mi (Suc i) xs)"

fun np_argmax :: "npfloat list \<Rightarrow> error + nat" where
  "np_argmax [] = Inl ValueError"
| "np_argmax (x # xs) = Inr (if np_isnan x then 0 else argmax_loop x 0 1 xs)"

text \<open>
  \<^verbatim>\<open>np.argsort\<close> of a short float array: the indices sorted by their key, equal keys in
  their original order. NumPy does not promise the order of equal keys for its default
  sort; the dominant pair of every example below is free of ties.
\<close>

definition np_argsort :: "real list \<Rightarrow> nat list" where
  "np_argsort ks = sort_key (\<lambda>i. ks ! i) [0..<length ks]"

text \<open>\<^verbatim>\<open>xs[i]\<close> for \<open>i \<ge> 0\<close>.\<close>

definition py_index :: "'a list \<Rightarrow> nat \<Rightarrow> error + 'a" where
  "py_index xs i = (if i < length xs then Inr (xs ! i) else Inl IndexError)"

text \<open>\<^verbatim>\<open>d[k]\<close> on a dictionary.\<close>

definition leer :: "(string \<rightharpoonup> int) \<Rightarrow> string \<Rightarrow> error + int" where
  "leer d k = (case d k of None \<Rightarrow> Inl (KeyError k) | Some v \<Rightarrow> Inr v)"

text \<open>An attribute that is still \<^verbatim>\<open>None\<close> and is indexed or used in arithmetic.\<close>

definition no_none :: "'a option \<Rightarrow> error + 'a" where
  "no_none x = (case x of None \<Rightarrow> Inl TypeError | Some y \<Rightarrow> Inr y)"

text \<open>\<^verbatim>\<open>a / b\<close> on two \<^verbatim>\<open>int\<close>s: true division, \<^verbatim>\<open>ZeroDivisionError\<close> on \<open>b = 0\<close>.\<close>

definition py_truediv :: "int \<Rightarrow> int \<Rightarrow> error + real" where
  "py_truediv a b = (if b = 0 then Inl ZeroDivisionError else Inr (real_of_int a / real_of_int b))"

subsection \<open>The object\<close>

record detector =
  etapas :: "string list"
  etapas_abrev :: "string list"
  etapas_productivas :: "string list"
  matriz_transicion :: "real list list option"
  autovalores :: "real list option"
  autovectores :: "real list list option"
  autovalor_dominante :: "real option"
  autovector_dominante :: "npfloat list option"
  cuello_botella_idx :: "nat option"
  cuello_botella_nombre :: "string option"
  datos_flujo :: "string \<rightharpoonup> int"

text \<open>
  \<^verbatim>\<open>__init__\<close>. \<open>autovectores\<close> holds the matrix of eigenvectors as the list of its
  columns: \<open>autovectores ! k\<close> is \<^verbatim>\<open>self.autovectores[:, k]\<close>.
\<close>

definition init :: detector where
  "init =
     \<lparr> etapas = [''Amasado'', ''Horneado'', ''Empaque'', ''Reproceso'', ''Venta'', ''Descarte''],
       etapas_abrev = [''A'', ''H'', ''E'', ''R'', ''V'', ''D''],
       etapas_productivas = [''Amasado'', ''Horneado'', ''Empaque'', ''Reproceso''],
       matriz_transicion = None,
       autovalores = None,
       autovectores = None,
       autovalor_dominante = None,
       autovector_dominante = None,
       cuello_botella_idx = None,
       cuello_botella_nombre = None,
       datos_flujo = Map.empty \<rparr>"

text \<open>The default counts of \<^verbatim>\<open>ingresar_datos_flujo\<close> (the bakery of the report).\<close>

definition valores_default :: "string \<rightharpoonup> int" where
  "valores_default =
     [''A_to_H'' \<mapsto> 1000, ''H_to_E'' \<mapsto> 944, ''H_to_R'' \<mapsto> 56, ''E_to_V'' \<mapsto> 921,
      ''E_to_R'' \<mapsto> 23, ''R_to_H'' \<mapsto> 59, ''R_to_D'' \<mapsto> 20]"

subsection \<open>\<^verbatim>\<open>construir_matriz_transicion\<close>\<close>

definition np_zeros :: "nat \<Rightarrow> nat \<Rightarrow> real list list" where
  "np_zeros r c = replicate r (replicate c 0)"

text \<open>\<^verbatim>\<open>m[i, j] = v\<close>; every use below has \<open>i, j < 6\<close> on a \<open>6 \<times> 6\<close> matrix.\<close>

definition asignar :: "real list list \<Rightarrow> nat \<Rightarrow> nat \<Rightarrow> real \<Rightarrow> real list list" where
  "asignar m i j v = m[i := (m ! i)[j := v]]"

text \<open>
  One productive row with two destinations (Horneado, Empaque, Reproceso): the total of
  the two counts, and the two quotients only under the guard \<^verbatim>\<open>if total > 0\<close>.
\<close>

definition fila_flujo ::
  "(string \<rightharpoonup> int) \<Rightarrow> nat \<Rightarrow> string \<Rightarrow> nat \<Rightarrow> string \<Rightarrow> nat \<Rightarrow> real list list \<Rightarrow> error + real list list"
where
  "fila_flujo d i k1 j1 k2 j2 m =
     bind_err (leer d k1) (\<lambda>c1.
     bind_err (leer d k2) (\<lambda>c2.
       let tot = c1 + c2 in
       if tot > 0
       then Inr (asignar (asignar m i j1 (real_of_int c1 / real_of_int tot))
                         i j2 (real_of_int c2 / real_of_int tot))
       else Inr m))"

definition construir_matriz_transicion :: "detector \<Rightarrow> error + detector" where
  "construir_matriz_transicion st =
     (let d = datos_flujo st;
          m0 = np_zeros 6 6;
          m1 = asignar m0 0 1 1
      in bind_err (fila_flujo d 1 ''H_to_E'' 2 ''H_to_R'' 3 m1) (\<lambda>m2.
         bind_err (fila_flujo d 2 ''E_to_V'' 4 ''E_to_R'' 3 m2) (\<lambda>m3.
         bind_err (fila_flujo d 3 ''R_to_H'' 1 ''R_to_D'' 5 m3) (\<lambda>m4.
           let m5 = asignar m4 4 4 1;
               m6 = asignar m5 5 5 1
           in Inr (st\<lparr>matriz_transicion := Some m6\<rparr>)))))"

subsection \<open>\<^verbatim>\<open>calcular_autovalores_scipy\<close>\<close>

text \<open>
  \<^verbatim>\<open>scipy.linalg.eig\<close> is a library routine and a parameter of the model: it maps the
  matrix to the list of its eigenpairs, the \<open>k\<close>-th pair being \<^verbatim>\<open>w[k]\<close> with the column
  \<^verbatim>\<open>vr[:, k]\<close>, or fails.
\<close>

type_synonym eig_solver = "real list list \<Rightarrow> error + (complex \<times> complex list) list"

text \<open>
  \<^verbatim>\<open>np.real\<close> on both arrays, then the reordering by
  \<^verbatim>\<open>np.argsort(np.abs(autovalores))[::-1]\<close>. Every index of \<open>idx\<close> is below the number
  of pairs.
\<close>

definition descomposicion_ordenada ::
  "(complex \<times> complex list) list \<Rightarrow> real list \<times> real list list"
where
  "descomposicion_ordenada pares =
     (let vals = map (\<lambda>p. Re (fst p)) pares;
          vecs = map (\<lambda>p. map Re (snd p)) pares;
          idx = rev (np_argsort (map abs vals))
      in (map (\<lambda>i. vals ! i) idx, map (\<lambda>i. vecs ! i) idx))"

text \<open>
  \<^verbatim>\<open>v = np.abs(v); v = v / v.sum()\<close>: the division is NumPy's, so a zero sum raises
  nothing.
\<close>

definition dominante_normalizado :: "real list \<Rightarrow> npfloat list" where
  "dominante_normalizado v =
     (let a = map abs v;
          s = sum_list a
      in map (\<lambda>x. np_truediv x s) a)"

definition calcular_autovalores_scipy :: "eig_solver \<Rightarrow> detector \<Rightarrow> error + detector" where
  "calcular_autovalores_scipy eig st =
     (case matriz_transicion st of
        None \<Rightarrow> Inl ValueError
      | Some m \<Rightarrow>
          bind_err (eig m) (\<lambda>pares.
            let (vals, vecs) = descomposicion_ordenada pares
            in bind_err (py_index vals 0) (\<lambda>dom.
               bind_err (py_index vecs 0) (\<lambda>vdom.
                 Inr (st\<lparr>autovalores := Some vals,
                         autovectores := Some vecs,
                         autovalor_dominante := Some dom,
                         autovector_dominante := Some (dominante_normalizado vdom)\<rparr>)))))"

subsection \<open>\<^verbatim>\<open>identificar_cuello_botella\<close>\<close>

definition identificar_cuello_botella :: "detector \<Rightarrow> error + detector" where
  "identificar_cuello_botella st =
     (let etapas_prod = take 4 (etapas st)
      in bind_err (no_none (autovector_dominante st)) (\<lambda>v.
           let valores_productivos = take 4 v
           in bind_err (np_argmax valores_productivos) (\<lambda>max_idx_productivo.
              bind_err (py_index etapas_prod max_idx_productivo) (\<lambda>nombre.
                Inr (st\<lparr>cuello_botella_idx := Some max_idx_productivo,
                        cuello_botella_nombre := Some nombre\<rparr>)))))"

subsection \<open>\<^verbatim>\<open>analizar_estabilidad_sistema\<close>\<close>

text \<open>The three strings the method can return; the second is \<^verbatim>\<open>CON_P\<close>, U+00C9, \<^verbatim>\<open>RDIDAS\<close>.\<close>

definition ESTABLE :: string where
  "ESTABLE = ''ESTABLE''"

definition CON_PERDIDAS :: string where
  "CON_PERDIDAS = ''CON_P'' @ [CHR 0xC9] @ ''RDIDAS''"

definition INESTABLE :: string where
  "INESTABLE = ''INESTABLE''"

text \<open>
  The method returns \<open>estabilidad\<close>. The second component is the local \<open>perdida\<close>, the
  percentage the middle branch computes and prints (\<^verbatim>\<open>Se pierde ...% del flujo\<close>); the
  other branches compute none.
\<close>

definition analizar_estabilidad_sistema :: "detector \<Rightarrow> error + (string \<times> real option)" where
  "analizar_estabilidad_sistema st =
     bind_err (no_none (autovalor_dominante st)) (\<lambda>l.
       if \<bar>l - 1\<bar> < 1 / 1000 then Inr (ESTABLE, None)
       else if l < 1 then Inr (CON_PERDIDAS, Some ((1 - l) * 100))
       else Inr (INESTABLE, None))"

subsection \<open>\<^verbatim>\<open>generar_reporte\<close>\<close>

text \<open>
  The dictionary \<open>reporte\<close>, its entries in the order the method evaluates them. The
  entries left out are the clock (\<open>fecha_analisis\<close>) and the constant texts (\<open>version\<close>,
  \<open>metodologia\<close>, \<open>recomendaciones\<close>). There is no entry for a loss.
\<close>

record reporte =
  datos_flujo_r :: "string \<rightharpoonup> int"
  cuello_botella :: "string option"
  cuello_botella_porcentaje :: npfloat
  autovalor_dominante_r :: real
  distribucion_flujo :: "(string \<times> npfloat) list"
  eficiencia_general :: real
  tasa_reproceso :: real
  estabilidad_sistema :: string

definition generar_reporte :: "detector \<Rightarrow> error + reporte" where
  "generar_reporte st =
     (let d = datos_flujo st in
      bind_err (no_none (autovector_dominante st)) (\<lambda>v.
      bind_err (no_none (cuello_botella_idx st)) (\<lambda>i.
      bind_err (py_index v i) (\<lambda>vi.
      bind_err (no_none (autovalor_dominante st)) (\<lambda>l.
      bind_err (leer d ''E_to_V'') (\<lambda>ev.
      bind_err (leer d ''A_to_H'') (\<lambda>ah.
      bind_err (py_truediv ev ah) (\<lambda>ef.
      bind_err (leer d ''H_to_R'') (\<lambda>hr.
      bind_err (leer d ''E_to_R'') (\<lambda>er.
      bind_err (leer d ''A_to_H'') (\<lambda>ah2.
      bind_err (py_truediv (hr + er) ah2) (\<lambda>tr.
        Inr \<lparr> datos_flujo_r = d,
              cuello_botella = cuello_botella_nombre st,
              cuello_botella_porcentaje = np_mul vi 100,
              autovalor_dominante_r = l,
              distribucion_flujo = zip (etapas st) v,
              eficiencia_general = ef * 100,
              tasa_reproceso = tr * 100,
              estabilidad_sistema =
                (if \<bar>l - 1\<bar> < 1 / 1000 then ESTABLE else INESTABLE) \<rparr>))))))))))))"

subsection \<open>The analysis steps of \<^verbatim>\<open>main\<close>\<close>

text \<open>
  \<^verbatim>\<open>main\<close> calls, on one object and in this order, the builder, the eigen step, the
  stability analysis and the bottleneck identification; an exception ends the run. The
  result is the final object and what the stability analysis returned.
\<close>

definition analisis :: "eig_solver \<Rightarrow> detector \<Rightarrow> error + (detector \<times> (string \<times> real option))" where
  "analisis eig st =
     bind_err (construir_matriz_transicion st) (\<lambda>s1.
     bind_err (calcular_autovalores_scipy eig s1) (\<lambda>s2.
     bind_err (analizar_estabilidad_sistema s2) (\<lambda>verdicto.
     bind_err (identificar_cuello_botella s2) (\<lambda>s3.
       Inr (s3, verdicto)))))"

subsection \<open>Example data\<close>

text \<open>The product of a matrix and a vector, to state that a pair is an eigenpair.\<close>

definition mat_vec :: "real list list \<Rightarrow> real list \<Rightarrow> real list" where
  "mat_vec m v = map (\<lambda>f. sum_list (map2 (*) f v)) m"

text \<open>
  Counts a user can type (\<^verbatim>\<open>int\<close> accepts a sign), with a negative count out of
  Horneado.
\<close>

definition flujo_negativo :: "string \<rightharpoonup> int" where
  "flujo_negativo =
     valores_default(''H_to_E'' \<mapsto> - 2, ''H_to_R'' \<mapsto> 3, ''E_to_V'' \<mapsto> 0,
       ''E_to_R'' \<mapsto> 1, ''R_to_H'' \<mapsto> 1, ''R_to_D'' \<mapsto> 0)"

text \<open>
  Six eigenpairs of the matrix built from \<open>flujo_negativo\<close>, eigenvectors of Euclidean
  norm \<open>1\<close>: its eigenvalues are \<open>0\<close>, \<open>- 2\<close> and \<open>1\<close>, the last with an eigenspace of
  dimension three.
\<close>

definition pares_flujo_negativo :: "(complex \<times> complex list) list" where
  "pares_flujo_negativo =
     [(0, [1, 0, 0, 0, 0, 0]),
      (1, [1 / 2, 1 / 2, 1 / 2, 1 / 2, 0, 0]),
      (1, [1 / 2, 1 / 2, 1 / 2, 1 / 2, 0, 0]),
      (- 2, [2 / 5, - (4 / 5), - (1 / 5), 2 / 5, 0, 0]),
      (1, [0, 0, 0, 0, 1, 0]),
      (1, [0, 0, 0, 0, 0, 1])]"

subsection \<open>The built matrix\<close>

text \<open>The share of a count in a total, zero when the guard \<open>total > 0\<close> fails.\<close>

definition cuota :: "int \<Rightarrow> int \<Rightarrow> real" where
  "cuota c tot = (if tot > 0 then real_of_int c / real_of_int tot else 0)"

lemma np_zeros_6:
  "np_zeros 6 6 =
     [[0, 0, 0, 0, 0, 0], [0, 0, 0, 0, 0, 0], [0, 0, 0, 0, 0, 0],
      [0, 0, 0, 0, 0, 0], [0, 0, 0, 0, 0, 0], [0, 0, 0, 0, 0, 0]]"
  by (simp add: np_zeros_def eval_nat_numeral)

lemma construir_forma:
  assumes "datos_flujo st ''H_to_E'' = Some he" "datos_flujo st ''H_to_R'' = Some hr"
    and "datos_flujo st ''E_to_V'' = Some ev" "datos_flujo st ''E_to_R'' = Some er"
    and "datos_flujo st ''R_to_H'' = Some rh" "datos_flujo st ''R_to_D'' = Some rd"
  shows "construir_matriz_transicion st =
     Inr (st\<lparr>matriz_transicion := Some
       [[0, 1, 0, 0, 0, 0],
        [0, 0, cuota he (he + hr), cuota hr (he + hr), 0, 0],
        [0, 0, 0, cuota er (ev + er), cuota ev (ev + er), 0],
        [0, cuota rh (rh + rd), 0, 0, 0, cuota rd (rh + rd)],
        [0, 0, 0, 0, 1, 0],
        [0, 0, 0, 0, 0, 1]]\<rparr>)"
  using assms
  unfolding construir_matriz_transicion_def np_zeros_6
  by (simp add: fila_flujo_def bind_err_def leer_def asignar_def cuota_def
      eval_nat_numeral Let_def)

lemma valores_default_simps:
  "valores_default ''A_to_H'' = Some 1000"
  "valores_default ''H_to_E'' = Some 944"
  "valores_default ''H_to_R'' = Some 56"
  "valores_default ''E_to_V'' = Some 921"
  "valores_default ''E_to_R'' = Some 23"
  "valores_default ''R_to_H'' = Some 59"
  "valores_default ''R_to_D'' = Some 20"
  by (simp_all add: valores_default_def)










subsection \<open>The eigen step and the dominant distribution\<close>

lemma sum_list_abs_div:
  "sum_list (map (\<lambda>x. \<bar>x\<bar> / s) v) = sum_list (map abs v) / (s::real)"
  by (induction v) (simp_all add: add_divide_distrib)

lemma sum_list_abs_nonneg: "0 \<le> sum_list (map abs (v::real list))"
  by (induction v) simp_all


lemma dominante_normalizado_no_cero:
  assumes "sum_list (map abs v) \<noteq> 0"
  shows "dominante_normalizado v = map Fin (map (\<lambda>x. \<bar>x\<bar> / sum_list (map abs v)) v)"
  using assms by (simp add: dominante_normalizado_def np_truediv_def Let_def comp_def)


lemma calcular_forma:
  assumes "matriz_transicion st = Some m" "eig m = Inr pares"
    and "descomposicion_ordenada pares = (l # vals, v # vecs)"
  shows "calcular_autovalores_scipy eig st =
     Inr (st\<lparr>autovalores := Some (l # vals),
             autovectores := Some (v # vecs),
             autovalor_dominante := Some l,
             autovector_dominante := Some (dominante_normalizado v)\<rparr>)"
  using assms by (simp add: calcular_autovalores_scipy_def bind_err_def py_index_def)

text \<open>
  C6. For every matrix and eigen solver whose sorted decomposition has the top pair
  \<open>(l, v)\<close> with a nonzero sum of the absolute values of \<open>v\<close>, the eigen step returns, and
  the dominant distribution it stores is the list of the values \<open>\<bar>x\<bar> / sum\<close> for \<open>x\<close> in
  \<open>v\<close>: every component is finite and at least \<open>0\<close>, and the components sum to \<open>1\<close>
  within \<open>10\<^sup>-\<^sup>9\<close> (exactly, in the model's arithmetic).
\<close>

theorem dominante_es_distribucion:
  assumes "matriz_transicion st = Some m" "eig m = Inr pares"
    and "descomposicion_ordenada pares = (l # vals, v # vecs)"
    and "sum_list (map abs v) \<noteq> 0"
  shows "\<exists>ps. calcular_autovalores_scipy eig st =
           Inr (st\<lparr>autovalores := Some (l # vals),
                   autovectores := Some (v # vecs),
                   autovalor_dominante := Some l,
                   autovector_dominante := Some (map Fin ps)\<rparr>)
      \<and> ps = map (\<lambda>x. \<bar>x\<bar> / sum_list (map abs v)) v
      \<and> (\<forall>p \<in> set ps. 0 \<le> p)
      \<and> \<bar>sum_list ps - 1\<bar> \<le> 1 / 10 ^ 9"
proof -
  let ?s = "sum_list (map abs v)"
  let ?ps = "map (\<lambda>x. \<bar>x\<bar> / ?s) v"
  have run: "calcular_autovalores_scipy eig st =
           Inr (st\<lparr>autovalores := Some (l # vals),
                   autovectores := Some (v # vecs),
                   autovalor_dominante := Some l,
                   autovector_dominante := Some (map Fin ?ps)\<rparr>)"
    using calcular_forma[where eig = eig, OF assms(1-3)] dominante_normalizado_no_cero[OF assms(4)] by simp
  have pos: "0 < ?s"
    using assms(4) sum_list_abs_nonneg[of v] by simp
  then have nn: "\<forall>p \<in> set ?ps. 0 \<le> p"
    by auto
  have "sum_list ?ps = 1"
    using pos by (simp add: sum_list_abs_div)
  then have "\<bar>sum_list ?ps - 1\<bar> \<le> 1 / 10 ^ 9"
    by simp
  then show ?thesis
    using run nn by blast
qed


lemma descomposicion_unos: "descomposicion_ordenada [(1, [1, 1, 1, 1, 1, 1]), (0, [1, 0, 0, 0, 0, 0])]
   = ([1, 0], [[1, 1, 1, 1, 1, 1], [1, 0, 0, 0, 0, 0]])"
  by (simp add: descomposicion_ordenada_def np_argsort_def upt_rec)



theorem dominante_es_distribucion_witness:
  "calcular_autovalores_scipy
     (\<lambda>m. Inr [(1, [1, 1, 1, 1, 1, 1]), (0, [1, 0, 0, 0, 0, 0])])
     (init\<lparr>matriz_transicion := Some
         [[0, 1, 0, 0, 0, 0],
          [0, 0, 944 / 1000, 56 / 1000, 0, 0],
          [0, 0, 0, 23 / 944, 921 / 944, 0],
          [0, 59 / 79, 0, 0, 0, 20 / 79],
          [0, 0, 0, 0, 1, 0],
          [0, 0, 0, 0, 0, 1]]\<rparr>) =
   Inr (init\<lparr>matriz_transicion := Some
         [[0, 1, 0, 0, 0, 0],
          [0, 0, 944 / 1000, 56 / 1000, 0, 0],
          [0, 0, 0, 23 / 944, 921 / 944, 0],
          [0, 59 / 79, 0, 0, 0, 20 / 79],
          [0, 0, 0, 0, 1, 0],
          [0, 0, 0, 0, 0, 1]],
       autovalores := Some [1, 0],
       autovectores := Some [[1, 1, 1, 1, 1, 1], [1, 0, 0, 0, 0, 0]],
       autovalor_dominante := Some 1,
       autovector_dominante := Some (map Fin [1 / 6, 1 / 6, 1 / 6, 1 / 6, 1 / 6, 1 / 6])\<rparr>)"
proof -
  let ?eig = "\<lambda>m :: real list list. (Inr [(1, [1, 1, 1, 1, 1, 1]), (0, [1, 0, 0, 0, 0, 0])]
      :: error + (complex \<times> complex list) list)"
  let ?m = "[[0, 1, 0, 0, 0, 0],
          [0, 0, 944 / 1000, 56 / 1000, 0, 0],
          [0, 0, 0, 23 / 944, 921 / 944, 0],
          [0, 59 / 79, 0, 0, 0, 20 / 79],
          [0, 0, 0, 0, 1, 0],
          [0, 0, 0, 0, 0, 1]] :: real list list"
  from dominante_es_distribucion[where eig = ?eig and st = "init\<lparr>matriz_transicion := Some ?m\<rparr>" and m = ?m
      and pares = "[(1, [1, 1, 1, 1, 1, 1]), (0, [1, 0, 0, 0, 0, 0])]"
      and l = 1 and vals = "[0]" and v = "[1, 1, 1, 1, 1, 1]" and vecs = "[[1, 0, 0, 0, 0, 0]]"]
  show ?thesis
    by (simp add: descomposicion_unos)
qed



subsection \<open>The bottleneck\<close>

lemma argmax_loop_lt:
  "mi < i \<Longrightarrow> argmax_loop mp mi i xs < i + length xs"
proof (induction xs arbitrary: mp mi i)
  case Nil
  then show ?case by simp
next
  case (Cons x xs)
  have a: "argmax_loop x i (Suc i) xs < Suc i + length xs"
    using Cons.IH[of i "Suc i" x] by simp
  have b: "argmax_loop mp mi (Suc i) xs < Suc i + length xs"
    using Cons.IH[of mi "Suc i" mp] Cons.prems by simp
  show ?case using a b by simp
qed

lemma np_argmax_lt:
  assumes "v \<noteq> []"
  shows "\<exists>r. np_argmax v = Inr r \<and> r < length v"
proof -
  obtain x xs where v: "v = x # xs" using assms by (cases v) auto
  have "argmax_loop x 0 1 xs < 1 + length xs" by (rule argmax_loop_lt) simp
  then show ?thesis using v by simp
qed

lemma argmax_loop_Fin:
  "mi < i \<Longrightarrow> argmax_loop (Fin m) mi i (map Fin xs) = r \<Longrightarrow>
     (r = mi \<and> (\<forall>k < length xs. xs ! k \<le> m)) \<or>
     (i \<le> r \<and> r < i + length xs \<and> m < xs ! (r - i)
        \<and> (\<forall>k < length xs. xs ! k \<le> xs ! (r - i))
        \<and> (\<forall>k < r - i. xs ! k < xs ! (r - i)))"
proof (induction xs arbitrary: m mi i)
  case Nil
  then show ?case by simp
next
  case (Cons x xs)
  show ?case
  proof (cases "x \<le> m")
    case True
    then have r: "argmax_loop (Fin m) mi (Suc i) (map Fin xs) = r" using Cons.prems by simp
    from Cons.IH[OF _ r] Cons.prems(1)
    consider (a) "r = mi" "\<forall>k < length xs. xs ! k \<le> m"
      | (b) "Suc i \<le> r" "r < Suc i + length xs" "m < xs ! (r - Suc i)"
            "\<forall>k < length xs. xs ! k \<le> xs ! (r - Suc i)" "\<forall>k < r - Suc i. xs ! k < xs ! (r - Suc i)"
      by (metis less_Suc_eq)
    then show ?thesis
    proof cases
      case a
      then show ?thesis using True by (auto simp: nth_Cons split: nat.splits)
    next
      case b
      obtain j where j: "r - i = Suc j" "r - Suc i = j" using b(1) by (metis Suc_diff_le diff_Suc_Suc)
      have "\<forall>k < length (x # xs). (x # xs) ! k \<le> (x # xs) ! (r - i)"
        using b True j by (auto simp: nth_Cons split: nat.splits)
      moreover have "\<forall>k < r - i. (x # xs) ! k < (x # xs) ! (r - i)"
        using b True j by (auto simp: nth_Cons split: nat.splits)
      ultimately show ?thesis using b j by auto
    qed
  next
    case False
    then have r: "argmax_loop (Fin x) i (Suc i) (map Fin xs) = r" using Cons.prems by simp
    from Cons.IH[OF _ r]
    consider (a) "r = i" "\<forall>k < length xs. xs ! k \<le> x"
      | (b) "Suc i \<le> r" "r < Suc i + length xs" "x < xs ! (r - Suc i)"
            "\<forall>k < length xs. xs ! k \<le> xs ! (r - Suc i)" "\<forall>k < r - Suc i. xs ! k < xs ! (r - Suc i)"
      by blast
    then show ?thesis
    proof cases
      case a
      then show ?thesis using False by (auto simp: nth_Cons split: nat.splits)
    next
      case b
      obtain j where j: "r - i = Suc j" "r - Suc i = j" using b(1) by (metis Suc_diff_le diff_Suc_Suc)
      have "\<forall>k < length (x # xs). (x # xs) ! k \<le> (x # xs) ! (r - i)"
        using b False j by (auto simp: nth_Cons split: nat.splits)
      moreover have "\<forall>k < r - i. (x # xs) ! k < (x # xs) ! (r - i)"
        using b False j by (auto simp: nth_Cons split: nat.splits)
      ultimately show ?thesis using b j False by auto
    qed
  qed
qed

lemma np_argmax_Fin:
  assumes "xs \<noteq> []"
  shows "\<exists>r. np_argmax (map Fin xs) = Inr r \<and> r < length xs
           \<and> (\<forall>k < length xs. xs ! k \<le> xs ! r) \<and> (\<forall>k < r. xs ! k < xs ! r)"
proof -
  obtain x ys where xs: "xs = x # ys" using assms by (cases xs) auto
  define r where "r = argmax_loop (Fin x) 0 1 (map Fin ys)"
  have run: "np_argmax (map Fin xs) = Inr r" by (simp add: xs r_def)
  from argmax_loop_Fin[of 0 1 x ys r] r_def
  consider (a) "r = 0" "\<forall>k < length ys. ys ! k \<le> x"
    | (b) "1 \<le> r" "r < 1 + length ys" "x < ys ! (r - 1)"
          "\<forall>k < length ys. ys ! k \<le> ys ! (r - 1)" "\<forall>k < r - 1. ys ! k < ys ! (r - 1)"
    by auto
  then show ?thesis
  proof cases
    case a
    then show ?thesis using run xs by (auto simp: nth_Cons split: nat.splits)
  next
    case b
    obtain j where j: "r = Suc j" using b(1) by (cases r) auto
    have "\<forall>k < length xs. xs ! k \<le> xs ! r"
      using b j xs by (auto simp: nth_Cons split: nat.splits)
    moreover have "\<forall>k < r. xs ! k < xs ! r"
      using b j xs by (auto simp: nth_Cons split: nat.splits)
    ultimately show ?thesis using run b xs by auto
  qed
qed

text \<open>
  C1. For every dominant distribution (six finite values; they need not even be
  normalised), the identification returns an index \<open>i < 4\<close> and the name of that
  state, such that the value of \<open>i\<close> is the largest of the four productive values and is
  strictly larger than every productive value before it (ties go to the lowest index).
  The name is one of Amasado, Horneado, Empaque, Reproceso and never Venta or Descarte,
  whatever the values of the absorbing states.
\<close>

theorem identificar_cuello_botella_productivo:
  assumes "etapas st = [''Amasado'', ''Horneado'', ''Empaque'', ''Reproceso'', ''Venta'', ''Descarte'']"
    and "autovector_dominante st = Some (map Fin xs)"
    and "length xs = 6"
  shows "\<exists>i nombre. i < 4
      \<and> identificar_cuello_botella st =
          Inr (st\<lparr>cuello_botella_idx := Some i, cuello_botella_nombre := Some nombre\<rparr>)
      \<and> nombre = etapas st ! i
      \<and> (\<forall>j < 4. xs ! j \<le> xs ! i)
      \<and> (\<forall>j < i. xs ! j < xs ! i)
      \<and> nombre \<in> {''Amasado'', ''Horneado'', ''Empaque'', ''Reproceso''}
      \<and> nombre \<noteq> ''Venta'' \<and> nombre \<noteq> ''Descarte''"
proof -
  have ne: "take 4 xs \<noteq> []" and len: "length (take 4 xs) = 4"
    using assms(3) by auto
  from np_argmax_Fin[OF ne] len obtain i where i:
    "np_argmax (map Fin (take 4 xs)) = Inr i" "i < 4"
    "\<forall>k < 4. take 4 xs ! k \<le> take 4 xs ! i" "\<forall>k < i. take 4 xs ! k < take 4 xs ! i"
    by auto
  have m: "\<forall>j < 4. xs ! j \<le> xs ! i" "\<forall>j < i. xs ! j < xs ! i"
    using i(2-4) by auto
  have "length (etapas st) = 6"
    using assms(1) by simp
  then have nm: "py_index (take 4 (etapas st)) i = Inr (etapas st ! i)"
    using i(2) by (simp add: py_index_def)
  have run: "identificar_cuello_botella st =
      Inr (st\<lparr>cuello_botella_idx := Some i, cuello_botella_nombre := Some (etapas st ! i)\<rparr>)"
    using i(1) assms(2)
    by (simp add: identificar_cuello_botella_def bind_err_def no_none_def nm take_map)
  have "i = 0 \<or> i = 1 \<or> i = 2 \<or> i = 3" using i(2) by arith
  then have n: "etapas st ! i \<in> {''Amasado'', ''Horneado'', ''Empaque'', ''Reproceso''}"
    "etapas st ! i \<noteq> ''Venta''" "etapas st ! i \<noteq> ''Descarte''"
    using assms(1) by (auto simp: eval_nat_numeral)
  show ?thesis using i(2) run m n by blast
qed


text \<open>
  Venta holds the largest value of all and Amasado ties with Horneado: the result is
  Amasado.
\<close>

theorem identificar_cuello_botella_productivo_witness:
  "identificar_cuello_botella
     (init\<lparr>autovector_dominante := Some (map Fin [1 / 10, 1 / 10, 1 / 20, 1 / 20, 1 / 2, 1 / 5])\<rparr>) =
   Inr (init\<lparr>autovector_dominante := Some (map Fin [1 / 10, 1 / 10, 1 / 20, 1 / 20, 1 / 2, 1 / 5]),
             cuello_botella_idx := Some 0,
             cuello_botella_nombre := Some ''Amasado''\<rparr>)"
proof -
  let ?xs = "[1 / 10, 1 / 10, 1 / 20, 1 / 20, 1 / 2, 1 / 5] :: real list"
  let ?st = "init\<lparr>autovector_dominante := Some (map Fin ?xs)\<rparr>"
  from identificar_cuello_botella_productivo[of ?st ?xs]
  obtain i nombre where i: "i < 4"
    "identificar_cuello_botella ?st =
       Inr (?st\<lparr>cuello_botella_idx := Some i, cuello_botella_nombre := Some nombre\<rparr>)"
    "nombre = etapas ?st ! i"
    "\<forall>j < 4. ?xs ! j \<le> ?xs ! i" "\<forall>j < i. ?xs ! j < ?xs ! i"
    by (auto simp: init_def)
  have c: "i = 0 \<or> i = 1 \<or> i = 2 \<or> i = 3"
    using i(1) by arith
  have "?xs ! 0 \<le> ?xs ! i"
    using i(4) by (metis zero_less_numeral)
  then have "i \<noteq> 2" "i \<noteq> 3"
    by (auto simp: eval_nat_numeral)
  moreover have "i \<noteq> 1"
  proof
    assume "i = 1"
    with i(5) have "?xs ! 0 < ?xs ! 1"
      by (metis zero_less_one)
    then show False
      by simp
  qed
  ultimately have "i = 0"
    using c by blast
  then show ?thesis
    using i(2,3) by (simp add: init_def)
qed

text \<open>
  Whatever the values, \<open>NaN\<close> and infinities included, the identification on a non-empty
  vector returns one of the first four states.
\<close>

lemma identificar_siempre_productiva:
  assumes "length (etapas st) = 6"
    and "autovector_dominante st = Some v"
    and "v \<noteq> []"
  shows "\<exists>i. i < 4 \<and> identificar_cuello_botella st =
           Inr (st\<lparr>cuello_botella_idx := Some i,
                   cuello_botella_nombre := Some (etapas st ! i)\<rparr>)"
proof -
  have "take 4 v \<noteq> []"
    using assms(3) by (cases v) simp_all
  from np_argmax_lt[OF this] obtain i where i: "np_argmax (take 4 v) = Inr i" "i < length (take 4 v)"
    by blast
  then have lt: "i < 4"
    by simp
  then have "py_index (take 4 (etapas st)) i = Inr (etapas st ! i)"
    using assms(1) by (simp add: py_index_def)
  then have "identificar_cuello_botella st =
      Inr (st\<lparr>cuello_botella_idx := Some i, cuello_botella_nombre := Some (etapas st ! i)\<rparr>)"
    using i(1) assms(2)
    by (simp add: identificar_cuello_botella_def bind_err_def no_none_def)
  then show ?thesis
    using lt by blast
qed

lemma identificar_nan:
  "identificar_cuello_botella (init\<lparr>autovector_dominante := Some [NaN, NaN, NaN, NaN, NaN, NaN]\<rparr>) =
     Inr (init\<lparr>autovector_dominante := Some [NaN, NaN, NaN, NaN, NaN, NaN],
               cuello_botella_idx := Some 0,
               cuello_botella_nombre := Some ''Amasado''\<rparr>)"
  by (simp add: identificar_cuello_botella_def bind_err_def no_none_def py_index_def init_def)

subsection \<open>The stability verdict\<close>

lemma verdictos_distintos:
  "ESTABLE \<noteq> CON_PERDIDAS" "ESTABLE \<noteq> INESTABLE" "CON_PERDIDAS \<noteq> INESTABLE"
  by (simp_all add: ESTABLE_def CON_PERDIDAS_def INESTABLE_def)





text \<open>
  Binary64 has neither boundary value. The value nearest to \<open>1.001\<close>, the one the literal
  \<^verbatim>\<open>1.001\<close> denotes, is \<open>1 + 4503599627370 / 2\<^sup>5\<^sup>2\<close>; it lies below the boundary and is
  classified stable. The value nearest to \<open>0.999\<close> is \<open>8998192055486251 / 2\<^sup>5\<^sup>3\<close>; it lies
  below its boundary and is classified lossy.
\<close>

lemma analizar_dobles_cercanos:
  "\<bar>1 + 4503599627370 / 2 ^ 52 - 1001 / 1000\<bar> < (1 / 2 ^ 53 :: real)
   \<and> analizar_estabilidad_sistema
         (st\<lparr>autovalor_dominante := Some (1 + 4503599627370 / 2 ^ 52)\<rparr>) = Inr (ESTABLE, None)
   \<and> \<bar>8998192055486251 / 2 ^ 53 - 999 / 1000\<bar> < (1 / 2 ^ 54 :: real)
   \<and> (\<exists>p. analizar_estabilidad_sistema
         (st\<lparr>autovalor_dominante := Some (8998192055486251 / 2 ^ 53)\<rparr>) = Inr (CON_PERDIDAS, p))"
  by (simp add: analizar_estabilidad_sistema_def bind_err_def no_none_def)

subsection \<open>The report\<close>

text \<open>Whatever the object, the report's verdict is the two-way one.\<close>

lemma reporte_dos_vias:
  assumes "generar_reporte st = Inr r"
  shows "\<exists>l. autovalor_dominante st = Some l
     \<and> estabilidad_sistema r = (if \<bar>l - 1\<bar> < 1 / 1000 then ESTABLE else INESTABLE)"
  using assms
  by (auto simp: generar_reporte_def bind_err_def no_none_def Let_def
      split: option.splits sum.splits)

text \<open>
  On an object whose dominant eigenvalue is \<open>0.95\<close> the stability analysis returns the
  lossy verdict with a loss of \<open>5\<close> percent, and the report records the unstable verdict.
\<close>

lemma reporte_estabilidad_en_095:
  "analizar_estabilidad_sistema
     (init\<lparr>datos_flujo := valores_default,
           autovalor_dominante := Some (95 / 100),
           autovector_dominante := Some (map Fin [1 / 10, 3 / 10, 1 / 10, 1 / 10, 3 / 10, 1 / 10]),
           cuello_botella_idx := Some 1,
           cuello_botella_nombre := Some ''Horneado''\<rparr>) = Inr (CON_PERDIDAS, Some 5)
   \<and> generar_reporte
     (init\<lparr>datos_flujo := valores_default,
           autovalor_dominante := Some (95 / 100),
           autovector_dominante := Some (map Fin [1 / 10, 3 / 10, 1 / 10, 1 / 10, 3 / 10, 1 / 10]),
           cuello_botella_idx := Some 1,
           cuello_botella_nombre := Some ''Horneado''\<rparr>) =
     Inr \<lparr> datos_flujo_r = valores_default,
           cuello_botella = Some ''Horneado'',
           cuello_botella_porcentaje = Fin 30,
           autovalor_dominante_r = 95 / 100,
           distribucion_flujo =
             [(''Amasado'', Fin (1 / 10)), (''Horneado'', Fin (3 / 10)), (''Empaque'', Fin (1 / 10)),
              (''Reproceso'', Fin (1 / 10)), (''Venta'', Fin (3 / 10)), (''Descarte'', Fin (1 / 10))],
           eficiencia_general = 921 / 10,
           tasa_reproceso = 79 / 10,
           estabilidad_sistema = INESTABLE \<rparr>
   \<and> INESTABLE \<noteq> CON_PERDIDAS"
  by (simp add: analizar_estabilidad_sistema_def generar_reporte_def bind_err_def no_none_def
      py_index_def leer_def py_truediv_def valores_default_simps init_def verdictos_distintos[symmetric])

text \<open>
  A whole run that reaches the lossy branch. The matrix always has the eigenvalue \<open>1\<close> of
  its two absorbing rows, so the dominant eigenvalue is below \<open>0.999\<close> only when it is
  negative; \<open>flujo_negativo\<close> gives the eigenvalue \<open>- 2\<close>.
\<close>

lemma etapas_init:
  "etapas init = [''Amasado'', ''Horneado'', ''Empaque'', ''Reproceso'', ''Venta'', ''Descarte'']"
  by (simp add: init_def)

lemma construir_flujo_negativo:
  "construir_matriz_transicion (init\<lparr>datos_flujo := flujo_negativo\<rparr>) =
     Inr (init\<lparr>datos_flujo := flujo_negativo, matriz_transicion := Some
             [[0, 1, 0, 0, 0, 0],
              [0, 0, - 2, 3, 0, 0],
              [0, 0, 0, 1, 0, 0],
              [0, 1, 0, 0, 0, 0],
              [0, 0, 0, 0, 1, 0],
              [0, 0, 0, 0, 0, 1]]\<rparr>)"
  using construir_forma[of "init\<lparr>datos_flujo := flujo_negativo\<rparr>" "- 2" 3 0 1 1 0]
  by (simp add: flujo_negativo_def cuota_def)

lemma pares_flujo_negativo_autopares:
  "list_all
     (\<lambda>(l, v). mat_vec
             [[0, 1, 0, 0, 0, 0],
              [0, 0, - 2, 3, 0, 0],
              [0, 0, 0, 1, 0, 0],
              [0, 1, 0, 0, 0, 0],
              [0, 0, 0, 0, 1, 0],
              [0, 0, 0, 0, 0, 1]]
           (map Re v) = map (\<lambda>x. Re l * x) (map Re v))
     pares_flujo_negativo"
  by (simp add: pares_flujo_negativo_def mat_vec_def)

lemma descomposicion_flujo_negativo:
  "descomposicion_ordenada pares_flujo_negativo =
     ([- 2, 1, 1, 1, 1, 0],
      [[2 / 5, - (4 / 5), - (1 / 5), 2 / 5, 0, 0],
       [0, 0, 0, 0, 0, 1],
       [0, 0, 0, 0, 1, 0],
       [1 / 2, 1 / 2, 1 / 2, 1 / 2, 0, 0],
       [1 / 2, 1 / 2, 1 / 2, 1 / 2, 0, 0],
       [1, 0, 0, 0, 0, 0]])"
  by (simp add: descomposicion_ordenada_def np_argsort_def pares_flujo_negativo_def upt_rec)

lemma normalizado_flujo_negativo:
  "dominante_normalizado [2 / 5, - (4 / 5), - (1 / 5), 2 / 5, 0, 0] =
     map Fin [2 / 9, 4 / 9, 1 / 9, 2 / 9, 0, 0]"
  by (simp add: dominante_normalizado_def np_truediv_def)

lemma analisis_flujo_negativo:
  "analisis (\<lambda>m. Inr pares_flujo_negativo) (init\<lparr>datos_flujo := flujo_negativo\<rparr>) =
     Inr (init\<lparr>datos_flujo := flujo_negativo,
           matriz_transicion := Some
             [[0, 1, 0, 0, 0, 0],
              [0, 0, - 2, 3, 0, 0],
              [0, 0, 0, 1, 0, 0],
              [0, 1, 0, 0, 0, 0],
              [0, 0, 0, 0, 1, 0],
              [0, 0, 0, 0, 0, 1]],
           autovalores := Some [- 2, 1, 1, 1, 1, 0],
           autovectores := Some
             [[2 / 5, - (4 / 5), - (1 / 5), 2 / 5, 0, 0],
              [0, 0, 0, 0, 0, 1],
              [0, 0, 0, 0, 1, 0],
              [1 / 2, 1 / 2, 1 / 2, 1 / 2, 0, 0],
              [1 / 2, 1 / 2, 1 / 2, 1 / 2, 0, 0],
              [1, 0, 0, 0, 0, 0]],
           autovalor_dominante := Some (- 2),
           autovector_dominante := Some (map Fin [2 / 9, 4 / 9, 1 / 9, 2 / 9, 0, 0]),
           cuello_botella_idx := Some 1,
           cuello_botella_nombre := Some ''Horneado''\<rparr>,
          (CON_PERDIDAS, Some 300))"
  by (simp add: analisis_def construir_flujo_negativo bind_err_def
      calcular_autovalores_scipy_def descomposicion_flujo_negativo py_index_def
      normalizado_flujo_negativo analizar_estabilidad_sistema_def no_none_def
      identificar_cuello_botella_def etapas_init)

lemma reporte_flujo_negativo:
  "generar_reporte
     (init\<lparr>datos_flujo := flujo_negativo,
           matriz_transicion := Some
             [[0, 1, 0, 0, 0, 0],
              [0, 0, - 2, 3, 0, 0],
              [0, 0, 0, 1, 0, 0],
              [0, 1, 0, 0, 0, 0],
              [0, 0, 0, 0, 1, 0],
              [0, 0, 0, 0, 0, 1]],
           autovalores := Some [- 2, 1, 1, 1, 1, 0],
           autovectores := Some
             [[2 / 5, - (4 / 5), - (1 / 5), 2 / 5, 0, 0],
              [0, 0, 0, 0, 0, 1],
              [0, 0, 0, 0, 1, 0],
              [1 / 2, 1 / 2, 1 / 2, 1 / 2, 0, 0],
              [1 / 2, 1 / 2, 1 / 2, 1 / 2, 0, 0],
              [1, 0, 0, 0, 0, 0]],
           autovalor_dominante := Some (- 2),
           autovector_dominante := Some (map Fin [2 / 9, 4 / 9, 1 / 9, 2 / 9, 0, 0]),
           cuello_botella_idx := Some 1,
           cuello_botella_nombre := Some ''Horneado''\<rparr>) =
     Inr \<lparr> datos_flujo_r = flujo_negativo,
           cuello_botella = Some ''Horneado'',
           cuello_botella_porcentaje = Fin (400 / 9),
           autovalor_dominante_r = - 2,
           distribucion_flujo =
             [(''Amasado'', Fin (2 / 9)), (''Horneado'', Fin (4 / 9)), (''Empaque'', Fin (1 / 9)),
              (''Reproceso'', Fin (2 / 9)), (''Venta'', Fin 0), (''Descarte'', Fin 0)],
           eficiencia_general = 0,
           tasa_reproceso = 2 / 5,
           estabilidad_sistema = INESTABLE \<rparr>"
  by (simp add: generar_reporte_def bind_err_def no_none_def py_index_def leer_def
      py_truediv_def flujo_negativo_def valores_default_simps etapas_init)

text \<open>
  C8. The report does not record the verdict of the stability analysis. On the run from
  \<open>flujo_negativo\<close>, whose dominant eigenvalue is \<open>- 2\<close>, the analysis returns the lossy
  verdict (with a loss of \<open>300\<close> percent) and the report built from the same object
  records the unstable verdict; the report has no entry for the loss.
\<close>

theorem reporte_contradice_analisis:
  "\<exists>s r. analisis (\<lambda>m. Inr pares_flujo_negativo) (init\<lparr>datos_flujo := flujo_negativo\<rparr>) =
            Inr (s, (CON_PERDIDAS, Some 300))
      \<and> autovalor_dominante s = Some (- 2)
      \<and> generar_reporte s = Inr r
      \<and> autovalor_dominante_r r = - 2
      \<and> estabilidad_sistema r = INESTABLE
      \<and> INESTABLE \<noteq> CON_PERDIDAS"
  using analisis_flujo_negativo reporte_flujo_negativo verdictos_distintos(3)
  by (intro exI conjI) (assumption | simp)+

subsection \<open>The count from Amasado to Horneado\<close>











end
